theory Spec2Isabelle
  imports Complex_Main "HOL-Library.Sublist"
begin

section \<open>CRABClient.UserUtilities: values, errors and the outside world\<close>

text \<open>
  The module is glue around external commands and library calls. Every raise of the
  source is a value \<open>Inl e\<close> of the result type \<open>error + 'a\<close>; every effect (a command
  handed to the shell, a file removed, the console log level, a logger call) is a field
  of an explicit world that each function takes and returns.
\<close>

datatype error =
    ClientException string
  | UsernameException string
  | KeyError
  | IndexError
  | TypeError
  | ValueError
  | OSError
  | UnicodeDecodeError
  | FormatError

text \<open>
  \<open>ClientException\<close> and \<open>UsernameException\<close> are the two exceptions the module raises
  itself, with their message. The others are the interpreter's: \<open>KeyError\<close> and
  \<open>IndexError\<close> (the two subclasses of Python's \<open>LookupError\<close>) from subscripting,
  \<open>TypeError\<close> from subscripting or iterating a value of the wrong kind, \<open>ValueError\<close>
  from \<open>list.index\<close>, \<open>int\<close> and \<open>json.loads\<close>, \<open>OSError\<close> from \<open>os.unlink\<close> and
  \<open>open\<close> on a path that does not exist, \<open>UnicodeDecodeError\<close> from reading a file
  as text, and \<open>FormatError\<close> for the \<open>%\<close> operator rejecting its template (a
  \<open>TypeError\<close> or \<open>ValueError\<close> in Python).
\<close>

datatype json =
    JNull
  | JBool bool
  | JInt int
  | JFloat real
  | JStr string
  | JList "json list"
  | JDict "(string \<times> json) list"

text \<open>
  The values \<open>json.loads\<close> produces, which are also the values of the status structure:
  \<open>JNull\<close> is Python's \<open>None\<close>, a \<open>JDict\<close> lists the items of a dict in order (its
  keys are distinct), looked up by \<open>map_of\<close>.
\<close>

fun truthy :: "json \<Rightarrow> bool" where
  "truthy JNull = False"
| "truthy (JBool b) = b"
| "truthy (JInt i) = (i \<noteq> 0)"
| "truthy (JFloat x) = (x \<noteq> 0)"
| "truthy (JStr s) = (s \<noteq> [])"
| "truthy (JList xs) = (xs \<noteq> [])"
| "truthy (JDict kvs) = (kvs \<noteq> [])"

text \<open>\<open>v[k]\<close> with a string key \<open>k\<close>.\<close>

fun subscript_key :: "json \<Rightarrow> string \<Rightarrow> error + json" where
  "subscript_key (JDict kvs) k =
     (case map_of kvs k of None \<Rightarrow> Inl KeyError | Some v \<Rightarrow> Inr v)"
| "subscript_key _ k = Inl TypeError"

text \<open>\<open>v[0]\<close>. The keys of a decoded dict are strings, so \<open>0\<close> is never among them.\<close>

fun subscript_0 :: "json \<Rightarrow> error + json" where
  "subscript_0 (JList xs) = (case xs of [] \<Rightarrow> Inl IndexError | x # _ \<Rightarrow> Inr x)"
| "subscript_0 (JStr s) = (case s of [] \<Rightarrow> Inl IndexError | c # _ \<Rightarrow> Inr (JStr [c]))"
| "subscript_0 (JDict kvs) = Inl KeyError"
| "subscript_0 _ = Inl TypeError"

text \<open>The items a \<open>for\<close> loop over the value visits.\<close>

fun py_iter :: "json \<Rightarrow> error + json list" where
  "py_iter (JList xs) = Inr xs"
| "py_iter (JDict kvs) = Inr (map (\<lambda>kv. JStr (fst kv)) kvs)"
| "py_iter (JStr s) = Inr (map (\<lambda>c. JStr [c]) s)"
| "py_iter _ = Inl TypeError"

subsection \<open>Strings\<close>

text \<open>\<open>s.replace('\n', '\n' + pad)\<close>: the pattern is one character, so the
  replacement works character by character.\<close>

definition indent :: "string \<Rightarrow> string \<Rightarrow> string" where
  "indent pad s = concat (map (\<lambda>c. if c = CHR 0x0A then CHR 0x0A # pad else [c]) s)"

fun digits :: "nat \<Rightarrow> string" where
  "digits n =
     (if n < 10 then [char_of (48 + n)] else digits (n div 10) @ [char_of (48 + n mod 10)])"

text \<open>\<open>'%s' % i\<close> for an integer \<open>i\<close>.\<close>

definition str_int :: "int \<Rightarrow> string" where
  "str_int i = (if i < 0 then CHR ''-'' # digits (nat (- i)) else digits (nat i))"

subsection \<open>The \<open>%\<close> operator with one string argument\<close>

text \<open>
  \<open>template % arg\<close>: \<open>%s\<close> is replaced by the argument and \<open>%%\<close> by a percent sign.
  With a single argument a second conversion, a template without any conversion and a
  percent sign followed by anything else are rejected; flags, widths and precisions
  between the percent sign and the conversion are not followed and count as rejected.
\<close>

fun percent_rest :: "string \<Rightarrow> error + string" where
  "percent_rest [] = Inr []"
| "percent_rest [c] = (if c = CHR ''%'' then Inl FormatError else Inr [c])"
| "percent_rest (c # d # t) =
     (if c = CHR ''%'' then
        (if d = CHR ''%'' then
           (case percent_rest t of Inl e \<Rightarrow> Inl e | Inr r \<Rightarrow> Inr (CHR ''%'' # r))
         else Inl FormatError)
      else (case percent_rest (d # t) of Inl e \<Rightarrow> Inl e | Inr r \<Rightarrow> Inr (c # r)))"

fun percent :: "string \<Rightarrow> string \<Rightarrow> error + string" where
  "percent [] a = Inl FormatError"
| "percent [c] a = Inl FormatError"
| "percent (c # d # t) a =
     (if c = CHR ''%'' then
        (if d = CHR ''s'' then
           (case percent_rest t of Inl e \<Rightarrow> Inl e | Inr r \<Rightarrow> Inr (a @ r))
         else if d = CHR ''%'' then
           (case percent t a of Inl e \<Rightarrow> Inl e | Inr r \<Rightarrow> Inr (CHR ''%'' # r))
         else Inl FormatError)
      else (case percent (d # t) a of Inl e \<Rightarrow> Inl e | Inr r \<Rightarrow> Inr (c # r)))"

text \<open>\<open>'%s' % v\<close> and \<open>str(v)\<close> for a decoded value: a string is itself; the text of
  any other value is the interpreter's, taken as the parameter \<open>str_of\<close>.\<close>

definition py_str :: "(json \<Rightarrow> string) \<Rightarrow> json \<Rightarrow> string" where
  "py_str str_of v = (case v of JStr s \<Rightarrow> s | _ \<Rightarrow> str_of v)"

text \<open>\<open>'%s' % p\<close> for an optional argument left at its default \<open>None\<close>.\<close>

definition opt_str :: "string option \<Rightarrow> string" where
  "opt_str p = (case p of None \<Rightarrow> ''None'' | Some s \<Rightarrow> s)"

subsection \<open>The world\<close>

datatype level = DEBUG | ERROR

record 'x world =
  issued :: "string list"
  files :: "string \<rightharpoonup> string"
  environ :: "string \<rightharpoonup> string"
  console_loglevel :: int
  handler_levels :: "int list option"
  logged :: "(level \<times> string) list"
  outside :: 'x

text \<open>
  \<^item> \<open>issued\<close>: the commands handed to \<open>execute_command\<close>, oldest first;
  \<^item> \<open>files\<close>: the file system, the content of each existing path;
  \<^item> \<open>environ\<close>: \<open>os.environ\<close>;
  \<^item> \<open>console_loglevel\<close>: the variable \<open>CONSOLE_LOGLEVEL\<close> of \<open>CRABClient.ClientUtilities\<close>;
  \<^item> \<open>handler_levels\<close>: the levels of the handlers of the logger \<open>CRAB3.all\<close>,
    \<open>None\<close> when no logger of that name is registered;
  \<^item> \<open>logged\<close>: the calls made on the logger argument, oldest first;
  \<^item> \<open>outside\<close>: whatever else the external commands and services depend on.
\<close>

type_synonym cmd_result = "string \<times> string \<times> int"

type_synonym 'x runner = "bool \<Rightarrow> string \<Rightarrow> 'x world \<Rightarrow> cmd_result \<times> 'x world"

text \<open>
  \<open>execute_command\<close> of \<open>CRABClient.ClientUtilities\<close> is not among the sources: it spawns
  the command and returns \<open>(stdout, stderr, returncode)\<close>. What the command answers and
  does to the world is the parameter \<open>run\<close> (its first argument tells whether a logger
  was passed); the model records that the command was issued.
\<close>

definition execute_command :: "'x runner \<Rightarrow> bool \<Rightarrow> string \<Rightarrow> 'x world \<Rightarrow> cmd_result \<times> 'x world" where
  "execute_command run logger cmd w =
     (case run logger cmd w of (r, w') \<Rightarrow> (r, w'\<lparr>issued := issued w @ [cmd]\<rparr>))"

text \<open>\<open>capath = os.environ['X509_CERT_DIR'] if 'X509_CERT_DIR' in os.environ else ...\<close>\<close>

definition capath :: "'x world \<Rightarrow> string" where
  "capath w =
     (case environ w ''X509_CERT_DIR'' of
        Some d \<Rightarrow> d
      | None \<Rightarrow> ''/etc/grid-security/certificates'')"

definition log_call :: "level \<Rightarrow> string \<Rightarrow> 'x world \<Rightarrow> 'x world" where
  "log_call l msg w = w\<lparr>logged := logged w @ [(l, msg)]\<rparr>"

text \<open>
  \<open>os.unlink(path)\<close> and \<open>open(path).read()\<close>. Of the failures of the file system the
  path that does not exist is the one followed here. The file is opened in text mode:
  what \<open>read\<close> returns is the content as the interpreter decodes it, which is the
  parameter \<open>decode\<close> (the content itself under Python 2; under Python 3 the text in the
  encoding of the locale with line ends translated, or \<open>UnicodeDecodeError\<close>).
\<close>

definition os_unlink :: "string option \<Rightarrow> 'x world \<Rightarrow> (error + unit) \<times> 'x world" where
  "os_unlink path w =
     (case path of
        None \<Rightarrow> (Inl TypeError, w)
      | Some p \<Rightarrow>
          (case files w p of
             None \<Rightarrow> (Inl OSError, w)
           | Some _ \<Rightarrow> (Inr (), w\<lparr>files := (files w)(p := None)\<rparr>)))"

definition read_file ::
  "(string \<Rightarrow> error + string) \<Rightarrow> string option \<Rightarrow> 'x world \<Rightarrow> error + string" where
  "read_file decode path w =
     (case path of
        None \<Rightarrow> Inl TypeError
      | Some p \<Rightarrow> (case files w p of None \<Rightarrow> Inl OSError | Some content \<Rightarrow> decode content))"

section \<open>getUsernameFromCRIC\<close>

text \<open>
  \<open>getUserProxy\<close> and the colour codes \<open>colors.BOLD\<close>, \<open>colors.NORMAL\<close> come from
  \<open>CRABClient.ClientUtilities\<close> and are parameters. An argument that may be \<open>None\<close> is an
  option; \<open>not p\<close> holds of \<open>None\<close> and of the empty string.
\<close>

definition falsy :: "string option \<Rightarrow> bool" where
  "falsy p = (case p of None \<Rightarrow> True | Some s \<Rightarrow> s = [])"

record colors =
  BOLD :: string
  NORMAL :: string

definition queryCmd :: "string \<Rightarrow> string \<Rightarrow> string" where
  "queryCmd cap proxyFileName =
     ''curl -sS --capath '' @ cap @ '' --cert '' @ proxyFileName @ '' --key '' @ proxyFileName
     @ '' 'https://cms-cric.cern.ch/api/accounts/user/query/?json&preset=whoami'' @ [CHR 0x27]"

definition parseCmd :: "string \<Rightarrow> string" where
  "parseCmd stdout =
     ''echo '' @ [CHR 0x27] @ stdout
     @ ''' | tr ':,' '\<newline>' | grep -A1 login | tail -1 | tr -d ' \<newline>\"'' @ [CHR 0x27]"

definition contact_msg :: "string \<Rightarrow> string \<Rightarrow> string \<Rightarrow> string" where
  "contact_msg cmd stdout stderr =
     ''Error contacting CRIC.''
     @ ''\<newline>Details follow:''
     @ ''\<newline>  Executed command: '' @ cmd
     @ ''\<newline>    Stdout:\<newline>      '' @ indent ''      '' stdout
     @ ''\<newline>    Stderr:\<newline>      '' @ indent ''      '' stderr"

definition retrieve_msg :: "colors \<Rightarrow> string \<Rightarrow> string \<Rightarrow> string \<Rightarrow> string" where
  "retrieve_msg col cmd stdout username =
     ''Failed to retrieve username from CRIC.''
     @ ''\<newline>Details follow:''
     @ ''\<newline>  Executed command: '' @ cmd
     @ ''\<newline>    Stdout:\<newline>      '' @ indent ''      '' stdout
     @ ''\<newline>    Parsed username: '' @ username
     @ ''\<newline>'' @ BOLD col @ ''Note'' @ NORMAL col
     @ '': Make sure you have the correct certificate mapped in your CERN account page''
     @ '' (you can check what is the certificate you currently have mapped''
     @ '' by looking at CERN Certificatiom Authority page.''
     @ ''\<newline>For instructions on how to map a certificate, see ''
     @ ''\<newline>  https://twiki.cern.ch/twiki/bin/view/CMSPublic/UsernameForCRAB#Adding_your_DN_to_your_profile''"

definition getUsernameFromCRIC ::
  "'x runner \<Rightarrow> ('x world \<Rightarrow> string option \<times> 'x world) \<Rightarrow> colors \<Rightarrow> string option \<Rightarrow>
     'x world \<Rightarrow> (error + string) \<times> 'x world" where
  "getUsernameFromCRIC run getUserProxy col proxyFileName w =
     (let cap = capath w in
      case (if falsy proxyFileName then getUserProxy w else (proxyFileName, w)) of
        (proxy, w1) \<Rightarrow>
          if falsy proxy then (Inl (UsernameException ''Can't find user proxy file''), w1)
          else
            (let cmd = queryCmd cap (opt_str proxy) in
             case execute_command run False cmd w1 of
               ((stdout, stderr, rc), w2) \<Rightarrow>
                 if rc \<noteq> 0 \<or> stdout = []
                 then (Inl (UsernameException (contact_msg cmd stdout stderr)), w2)
                 else
                   (case execute_command run False (parseCmd stdout) w2 of
                      ((username, stderr', rc'), w3) \<Rightarrow>
                        if username = ''null'' \<or> username = []
                        then (Inl (UsernameException (retrieve_msg col cmd stdout username)), w3)
                        else (Inr username, w3))))"

section \<open>curlGetFileFromURL\<close>

text \<open>
  Two builtins of the interpreter are parameters: \<open>to_int\<close> is \<open>int\<close> on a string
  (\<open>ValueError\<close> when the string is no number) and \<open>decode\<close> is the decoding of a file
  read as text.
\<close>

definition downloadCommand :: "string \<Rightarrow> string option \<Rightarrow> string option \<Rightarrow> string \<Rightarrow> string" where
  "downloadCommand cap proxyfilename filename url =
     ''curl -sS --capath '' @ cap @ '' --cert '' @ opt_str proxyfilename
     @ '' --key '' @ opt_str proxyfilename @ '' -o '' @ opt_str filename
     @ '' -w %\"{http_code}\"'' @ '' \"'' @ url @ ''\"''"

definition details_msg :: "int \<Rightarrow> string \<Rightarrow> string \<Rightarrow> string \<Rightarrow> string" where
  "details_msg rc stdout stderr errorDetails =
     ''exitcode: '' @ str_int rc @ ''\<newline>stdout: '' @ stdout @ ''\<newline>stderr: '' @ stderr
     @ ''\<newline>error details: '' @ errorDetails"

text \<open>The tail of the function, from the last \<open>if logger:\<close> on.\<close>

definition curl_return ::
  "bool \<Rightarrow> int \<Rightarrow> string \<Rightarrow> string \<Rightarrow> string \<Rightarrow> int \<Rightarrow> 'x world \<Rightarrow> (error + int) \<times> 'x world" where
  "curl_return logger rc stdout stderr errorDetails httpCode w =
     (Inr httpCode,
      if logger then log_call DEBUG (details_msg rc stdout stderr errorDetails) w else w)"

definition curlGetFileFromURL ::
  "'x runner \<Rightarrow> (string \<Rightarrow> error + int) \<Rightarrow> (string \<Rightarrow> error + string) \<Rightarrow>
     string \<Rightarrow> string option \<Rightarrow> string option \<Rightarrow> bool \<Rightarrow>
     'x world \<Rightarrow> (error + int) \<times> 'x world" where
  "curlGetFileFromURL run to_int decode url filename proxyfilename logger w =
     (let cmd = downloadCommand (capath w) proxyfilename filename url;
          w0 = (if logger then log_call DEBUG (''Will execute:\<newline>'' @ cmd) w else w)
      in
      case execute_command run logger cmd w0 of
        ((stdout, stderr, rc), w1) \<Rightarrow>
          if rc \<noteq> 0 then
            (case os_unlink filename w1 of
               (Inl e, w2) \<Rightarrow> (Inl e, w2)
             | (Inr _, w2) \<Rightarrow> curl_return logger rc stdout stderr [] 503 w2)
          else
            (case to_int stdout of
               Inl e \<Rightarrow> (Inl e, w1)
             | Inr httpCode \<Rightarrow>
                 if httpCode \<noteq> 200 then
                   (case read_file decode filename w1 of
                      Inl e \<Rightarrow> (Inl e, w1)
                    | Inr errorDetails \<Rightarrow>
                        (case os_unlink filename w1 of
                           (Inl e, w2) \<Rightarrow> (Inl e, w2)
                         | (Inr _, w2) \<Rightarrow>
                             curl_return logger rc stdout stderr errorDetails httpCode w2))
                 else curl_return logger rc stdout stderr [] httpCode w1))"

section \<open>getLumiListInValidFiles\<close>

text \<open>
  \<open>LumiList\<close> of \<open>FWCore.PythonUtilities.LumiList\<close> is an external class: the object is
  the constructor applied to the list of pairs the function hands it.
\<close>

datatype lumilist = LumiList "(json \<times> json) list"

definition complain :: "string \<Rightarrow> string \<Rightarrow> string \<Rightarrow> int \<Rightarrow> error" where
  "complain cmd stdout stderr returncode =
     (let msg = ''Failed executing '' @ cmd @ ''. Exitcode is '' @ str_int returncode;
          msg = (if stdout \<noteq> []
                 then msg @ ''\<newline>  Stdout:\<newline>    '' @ indent ''    '' stdout else msg);
          msg = (if stderr \<noteq> []
                 then msg @ ''\<newline>  Stderr:\<newline>    '' @ indent ''    '' stderr else msg)
      in ClientException msg)"

definition dasCmd :: "string \<Rightarrow> string" where
  "dasCmd dbsurl =
     (let instance = ''prod/'' @ dbsurl
      in ''dasgoclient --query '' @ '' '%s instance='' @ instance @ ''' --json'')"

text \<open>The body of the first loop: the name to append to \<open>validFiles\<close>, if any.\<close>

definition valid_name :: "json \<Rightarrow> error + json option" where
  "valid_name record =
     (case subscript_key record ''file'' of
        Inl e \<Rightarrow> Inl e
      | Inr fl \<Rightarrow>
          (case subscript_0 fl of
             Inl e \<Rightarrow> Inl e
           | Inr file \<Rightarrow>
               (case subscript_key file ''is_file_valid'' of
                  Inl e \<Rightarrow> Inl e
                | Inr v \<Rightarrow>
                    if truthy v then
                      (case subscript_key file ''name'' of
                         Inl e \<Rightarrow> Inl e
                       | Inr n \<Rightarrow> Inr (Some n))
                    else Inr None)))"

fun collect_valid :: "json list \<Rightarrow> json list \<Rightarrow> error + json list" where
  "collect_valid [] validFiles = Inr validFiles"
| "collect_valid (record # rest) validFiles =
     (case valid_name record of
        Inl e \<Rightarrow> Inl e
      | Inr None \<Rightarrow> collect_valid rest validFiles
      | Inr (Some n) \<Rightarrow> collect_valid rest (validFiles @ [n]))"

text \<open>The body of the inner loop of the second phase: the pair to append.\<close>

definition run_lumi :: "json \<Rightarrow> error + json \<times> json" where
  "run_lumi lumiInfo =
     (case subscript_key lumiInfo ''lumi'' of
        Inl e \<Rightarrow> Inl e
      | Inr ll \<Rightarrow>
          (case subscript_0 ll of
             Inl e \<Rightarrow> Inl e
           | Inr lumiDict \<Rightarrow>
               (case subscript_key lumiDict ''run_number'' of
                  Inl e \<Rightarrow> Inl e
                | Inr run \<Rightarrow>
                    (case subscript_key lumiDict ''lumi_section_num'' of
                       Inl e \<Rightarrow> Inl e
                     | Inr lumi \<Rightarrow> Inr (run, lumi)))))"

fun collect_pairs :: "json list \<Rightarrow> (json \<times> json) list \<Rightarrow> error + (json \<times> json) list" where
  "collect_pairs [] runLumiPairs = Inr runLumiPairs"
| "collect_pairs (lumiInfo # rest) runLumiPairs =
     (case run_lumi lumiInfo of
        Inl e \<Rightarrow> Inl e
      | Inr p \<Rightarrow> collect_pairs rest (runLumiPairs @ [p]))"

text \<open>
  One query: build the command from the template, run it, complain or decode the
  output and give the records the following \<open>for\<close> loop visits. Both phases do this
  with the same statements. \<open>json.loads\<close> is the parameter \<open>loads\<close>.
\<close>

definition das_query ::
  "'x runner \<Rightarrow> (string \<Rightarrow> error + json) \<Rightarrow> string \<Rightarrow> string \<Rightarrow>
     'x world \<Rightarrow> (error + json list) \<times> 'x world" where
  "das_query run loads template query w =
     (case percent template query of
        Inl e \<Rightarrow> (Inl e, w)
      | Inr cmd \<Rightarrow>
          (case execute_command run False cmd w of
             ((stdout, stderr, returncode), w') \<Rightarrow>
               if returncode \<noteq> 0 \<or> stdout = []
               then (Inl (complain cmd stdout stderr returncode), w')
               else
                 (case loads stdout of
                    Inl e \<Rightarrow> (Inl e, w')
                  | Inr res \<Rightarrow>
                      (case py_iter res of Inl e \<Rightarrow> (Inl e, w') | Inr recs \<Rightarrow> (Inr recs, w')))))"

text \<open>The first phase: \<open>validFiles\<close>.\<close>

definition valid_files ::
  "'x runner \<Rightarrow> (string \<Rightarrow> error + json) \<Rightarrow> string \<Rightarrow> string \<Rightarrow>
     'x world \<Rightarrow> (error + json list) \<times> 'x world" where
  "valid_files run loads template dataset w =
     (case das_query run loads template (''file dataset='' @ dataset) w of
        (Inl e, w') \<Rightarrow> (Inl e, w')
      | (Inr recs, w') \<Rightarrow>
          (case collect_valid recs [] of Inl e \<Rightarrow> (Inl e, w') | Inr vs \<Rightarrow> (Inr vs, w')))"

text \<open>The second phase: the loop over \<open>validFiles\<close>.\<close>

fun lumi_loop ::
  "'x runner \<Rightarrow> (string \<Rightarrow> error + json) \<Rightarrow> (json \<Rightarrow> string) \<Rightarrow> string \<Rightarrow> json list \<Rightarrow>
     (json \<times> json) list \<Rightarrow> 'x world \<Rightarrow> (error + (json \<times> json) list) \<times> 'x world" where
  "lumi_loop run loads str_of template [] runLumiPairs w = (Inr runLumiPairs, w)"
| "lumi_loop run loads str_of template (file # rest) runLumiPairs w =
     (case das_query run loads template (''lumi file='' @ py_str str_of file) w of
        (Inl e, w') \<Rightarrow> (Inl e, w')
      | (Inr recs, w') \<Rightarrow>
          (case collect_pairs recs runLumiPairs of
             Inl e \<Rightarrow> (Inl e, w')
           | Inr ps \<Rightarrow> lumi_loop run loads str_of template rest ps w'))"

definition getLumiListInValidFiles ::
  "'x runner \<Rightarrow> (string \<Rightarrow> error + json) \<Rightarrow> (json \<Rightarrow> string) \<Rightarrow> string \<Rightarrow> string \<Rightarrow>
     'x world \<Rightarrow> (error + lumilist) \<times> 'x world" where
  "getLumiListInValidFiles run loads str_of dataset dbsurl w =
     (case valid_files run loads (dasCmd dbsurl) dataset w of
        (Inl e, w1) \<Rightarrow> (Inl e, w1)
      | (Inr validFiles, w1) \<Rightarrow>
          (case lumi_loop run loads str_of (dasCmd dbsurl) validFiles [] w1 of
             (Inl e, w2) \<Rightarrow> (Inl e, w2)
           | (Inr runLumiPairs, w2) \<Rightarrow> (Inr (LumiList runLumiPairs), w2)))"

section \<open>Console log level and getMutedStatusInfo\<close>

definition getConsoleLogLevel :: "'x world \<Rightarrow> int" where
  "getConsoleLogLevel w = console_loglevel w"

text \<open>
  Modelled from the spec: \<open>setConsoleLogLevelVar\<close> of \<open>CRABClient.ClientUtilities\<close> is not
  among the sources. The console level is process-wide state, written by
  \<open>setConsoleLogLevel\<close> and read by \<open>getConsoleLogLevel\<close>: the function stores the level
  in the variable the accessor reads.
\<close>

definition setConsoleLogLevelVar :: "int \<Rightarrow> 'x world \<Rightarrow> 'x world" where
  "setConsoleLogLevelVar lvl w = w\<lparr>console_loglevel := lvl\<rparr>"

definition setConsoleLogLevel :: "int \<Rightarrow> 'x world \<Rightarrow> 'x world" where
  "setConsoleLogLevel lvl w =
     (let w' = setConsoleLogLevelVar lvl w
      in case handler_levels w' of
           None \<Rightarrow> w'
         | Some hs \<Rightarrow> w'\<lparr>handler_levels := Some (map (\<lambda>h. lvl) hs)\<rparr>)"

text \<open>
  The status command of \<open>CRABClient.Commands.status\<close> is a collaborator: \<open>status_new\<close>
  imports the module and builds the command object, \<open>status_call\<close> is its \<open>__call__\<close>.
  Either may raise and may change the world. \<open>mute\<close> is the constant \<open>LOGLEVEL_MUTE\<close>.
\<close>

definition getMutedStatusInfo ::
  "int \<Rightarrow> ('x world \<Rightarrow> (error + 'c) \<times> 'x world) \<Rightarrow> ('c \<Rightarrow> 'x world \<Rightarrow> (error + json) \<times> 'x world) \<Rightarrow>
     (json \<Rightarrow> string) \<Rightarrow> 'x world \<Rightarrow> (error + json) \<times> 'x world" where
  "getMutedStatusInfo mute status_new status_call str_of w =
     (case status_new w of
        (Inl e, w1) \<Rightarrow> (Inl e, w1)
      | (Inr cmdobj, w1) \<Rightarrow>
          (let loglevel = getConsoleLogLevel w1;
               w2 = setConsoleLogLevel mute w1
           in case status_call cmdobj w2 of
                (Inl e, w3) \<Rightarrow> (Inl e, w3)
              | (Inr statusDict, w3) \<Rightarrow>
                  (let w4 = setConsoleLogLevel loglevel w3
                   in case subscript_key statusDict ''statusFailureMsg'' of
                        Inl e \<Rightarrow> (Inl e, w4)
                      | Inr m \<Rightarrow>
                          if truthy m then
                            (Inr statusDict,
                             log_call ERROR
                               (''Error while getting status information. Got:\<newline>''
                                @ py_str str_of m @ '' '') w4)
                          else (Inr statusDict, w4))))"

section \<open>getColumn\<close>

text \<open>The structure is a record of the two sequences the function reads.\<close>

record dictresult =
  desc_columns :: "string list"
  result :: "json list"

text \<open>\<open>xs.index(x)\<close>: the first position of \<open>x\<close>, \<open>ValueError\<close> when there is none.\<close>

fun list_index :: "'a list \<Rightarrow> 'a \<Rightarrow> error + nat" where
  "list_index [] x = Inl ValueError"
| "list_index (y # ys) x =
     (if y = x then Inr 0
      else case list_index ys x of Inl e \<Rightarrow> Inl e | Inr i \<Rightarrow> Inr (Suc i))"

text \<open>\<open>xs[i]\<close> for an index \<open>i \<ge> 0\<close>.\<close>

definition subscript_nat :: "'a list \<Rightarrow> nat \<Rightarrow> error + 'a" where
  "subscript_nat xs i = (if i < length xs then Inr (xs ! i) else Inl IndexError)"

definition getColumn :: "dictresult \<Rightarrow> string \<Rightarrow> error + json" where
  "getColumn dictresult columnName =
     (case list_index (desc_columns dictresult) columnName of
        Inl e \<Rightarrow> Inl e
      | Inr columnIndex \<Rightarrow>
          (case subscript_nat (result dictresult) columnIndex of
             Inl e \<Rightarrow> Inl e
           | Inr v \<Rightarrow> if v = JStr ''None'' then Inr JNull else Inr v))"

section \<open>The words of the specification\<close>

text \<open>
  The fields of a response record the specification speaks of, read the way the source
  reads them: \<open>record['file'][0]['is_file_valid']\<close>, \<open>record['file'][0]['name']\<close>
  and \<open>lumiInfo['lumi'][0]\<close>.
\<close>

definition file_entry :: "json \<Rightarrow> error + json" where
  "file_entry r = (case subscript_key r ''file'' of Inl e \<Rightarrow> Inl e | Inr fl \<Rightarrow> subscript_0 fl)"

definition file_flag :: "json \<Rightarrow> error + json" where
  "file_flag r =
     (case file_entry r of Inl e \<Rightarrow> Inl e | Inr f \<Rightarrow> subscript_key f ''is_file_valid'')"

definition file_name :: "json \<Rightarrow> error + json" where
  "file_name r = (case file_entry r of Inl e \<Rightarrow> Inl e | Inr f \<Rightarrow> subscript_key f ''name'')"

definition lumi_entry :: "json \<Rightarrow> error + json" where
  "lumi_entry r = (case subscript_key r ''lumi'' of Inl e \<Rightarrow> Inl e | Inr ll \<Rightarrow> subscript_0 ll)"

definition present :: "error + 'a \<Rightarrow> bool" where
  "present x = (case x of Inl _ \<Rightarrow> False | Inr _ \<Rightarrow> True)"

text \<open>The shape of a file record as the claim on malformed records words it: a first
  element under \<open>file\<close> that carries both \<open>is_file_valid\<close> and \<open>name\<close>.\<close>

definition file_shape_both :: "json \<Rightarrow> bool" where
  "file_shape_both r = (present (file_flag r) \<and> present (file_name r))"

text \<open>The shape the function needs: the flag, and the name when the flag is true.\<close>

definition file_shape :: "json \<Rightarrow> bool" where
  "file_shape r =
     (case file_flag r of Inl _ \<Rightarrow> False | Inr v \<Rightarrow> truthy v \<longrightarrow> present (file_name r))"

definition lumi_shape :: "json \<Rightarrow> bool" where
  "lumi_shape r =
     (case lumi_entry r of
        Inl _ \<Rightarrow> False
      | Inr d \<Rightarrow> present (subscript_key d ''run_number'')
                \<and> present (subscript_key d ''lumi_section_num''))"

text \<open>The errors a subscript raises.\<close>

definition subscript_error :: "error \<Rightarrow> bool" where
  "subscript_error e = (e = KeyError \<or> e = IndexError \<or> e = TypeError)"

text \<open>The two kinds of query.\<close>

definition file_query :: "string \<Rightarrow> string" where
  "file_query dataset = ''file dataset='' @ dataset"

definition lumi_query :: "(json \<Rightarrow> string) \<Rightarrow> json \<Rightarrow> string" where
  "lumi_query str_of name = ''lumi file='' @ py_str str_of name"

text \<open>The command line the template gives for a query when \<open>dbsurl\<close> has no percent sign.\<close>

definition das_command :: "string \<Rightarrow> string \<Rightarrow> string" where
  "das_command dbsurl query =
     ''dasgoclient --query  '' @ [CHR 0x27] @ query @ '' instance=prod/'' @ dbsurl @ ''' --json''"

text \<open>The answers of the service to a list of queries issued one after the other, each
  in the world the one before left.\<close>

fun answers ::
  "'x runner \<Rightarrow> (string \<Rightarrow> error + json) \<Rightarrow> string \<Rightarrow> string list \<Rightarrow>
     'x world \<Rightarrow> (error + json list list) \<times> 'x world" where
  "answers run loads template [] w = (Inr [], w)"
| "answers run loads template (q # qs) w =
     (case das_query run loads template q w of
        (Inl e, w') \<Rightarrow> (Inl e, w')
      | (Inr recs, w') \<Rightarrow>
          (case answers run loads template qs w' of
             (Inl e, w'') \<Rightarrow> (Inl e, w'')
           | (Inr rss, w'') \<Rightarrow> (Inr (recs # rss), w'')))"

section \<open>A metadata service to run the functions on\<close>

text \<open>
  A small service for concrete runs. Dataset \<open>/A/B/C\<close> has two files, one of them
  invalid, and the valid one holds the lumi sections 10 and 11 of run 1; \<open>/A/B/D\<close> has one
  valid file whose lumi query fails; the only file of \<open>/A/B/E\<close> is invalid and its
  record has no name; the record of \<open>/A/B/F\<close> has an empty list under \<open>file\<close>. Any other
  command fails with exit code 1 and no output.
\<close>

definition world0 :: "unit world" where
  "world0 = \<lparr>issued = [], files = Map.empty, environ = Map.empty, console_loglevel = 20,
             handler_levels = Some [20, 10], logged = [], outside = ()\<rparr>"

definition service :: "(string \<times> string) list" where
  "service =
     [(das_command ''phys03'' ''file dataset=/A/B/C'',
       ''[{\"file\":[{\"is_file_valid\":1,\"name\":\"/store/valid.root\"}]},{\"file\":[{\"is_file_valid\":0,\"name\":\"/store/invalid.root\"}]}]''),
      (das_command ''phys03'' ''lumi file=/store/valid.root'',
       ''[{\"lumi\":[{\"run_number\":1,\"lumi_section_num\":10}]},{\"lumi\":[{\"run_number\":1,\"lumi_section_num\":11}]}]''),
      (das_command ''phys03'' ''file dataset=/A/B/D'',
       ''[{\"file\":[{\"is_file_valid\":1,\"name\":\"/store/lost.root\"}]}]''),
      (das_command ''phys03'' ''file dataset=/A/B/E'',
       ''[{\"file\":[{\"is_file_valid\":0}]}]''),
      (das_command ''phys03'' ''file dataset=/A/B/F'',
       ''[{\"file\":[]}]'')]"

definition service_run :: "unit runner" where
  "service_run logger cmd w =
     (case map_of service cmd of
        Some out \<Rightarrow> ((out, [], 0), w)
      | None \<Rightarrow> (([], ''dasgoclient: no records'', 1), w))"

definition file_record :: "(string \<times> json) list \<Rightarrow> json" where
  "file_record kvs =
     JDict [(''das'', JDict []), (''qhash'', JStr ''q''), (''file'', JList [JDict kvs])]"

definition lumi_record :: "int \<Rightarrow> int \<Rightarrow> json" where
  "lumi_record run lumi =
     JDict [(''das'', JDict []), (''qhash'', JStr ''q''),
            (''lumi'', JList [JDict [(''run_number'', JInt run), (''lumi_section_num'', JInt lumi)]])]"

definition service_loads :: "string \<Rightarrow> error + json" where
  "service_loads s =
     (case map_of
        [(''[{\"file\":[{\"is_file_valid\":1,\"name\":\"/store/valid.root\"}]},{\"file\":[{\"is_file_valid\":0,\"name\":\"/store/invalid.root\"}]}]'',
          JList [file_record [(''is_file_valid'', JInt 1), (''name'', JStr ''/store/valid.root'')],
                 file_record [(''is_file_valid'', JInt 0), (''name'', JStr ''/store/invalid.root'')]]),
         (''[{\"lumi\":[{\"run_number\":1,\"lumi_section_num\":10}]},{\"lumi\":[{\"run_number\":1,\"lumi_section_num\":11}]}]'',
          JList [lumi_record 1 10, lumi_record 1 11]),
         (''[{\"file\":[{\"is_file_valid\":1,\"name\":\"/store/lost.root\"}]}]'',
          JList [file_record [(''is_file_valid'', JInt 1), (''name'', JStr ''/store/lost.root'')]]),
         (''[{\"file\":[{\"is_file_valid\":0}]}]'',
          JList [file_record [(''is_file_valid'', JInt 0)]]),
         (''[{\"file\":[]}]'',
          JList [JDict [(''das'', JDict []), (''qhash'', JStr ''q''), (''file'', JList [])]])] s of
        Some v \<Rightarrow> Inr v
      | None \<Rightarrow> Inl ValueError)"

definition service_str :: "json \<Rightarrow> string" where
  "service_str v = ''?''"

text \<open>An identity service that knows one credential, and a shell that extracts the login.\<close>

definition cric_run :: "unit runner" where
  "cric_run logger cmd w =
     (if cmd = queryCmd ''/etc/grid-security/certificates'' ''/tmp/x509up_u1000''
      then ((''{\"login\": \"jdoe\"}'', [], 0), w)
      else if cmd = parseCmd ''{\"login\": \"jdoe\"}''
      then ((''jdoe'', [], 0), w)
      else (([], ''curl: (58) could not load PEM client certificate'', 58), w))"

section \<open>Properties of getLumiListInValidFiles\<close>

lemma percent_rest_plain: "CHR ''%'' \<notin> set t \<Longrightarrow> percent_rest t = Inr t"
  by (induction t rule: percent_rest.induct) auto

lemma percent_dasCmd:
  "CHR ''%'' \<notin> set dbsurl \<Longrightarrow> percent (dasCmd dbsurl) q = Inr (das_command dbsurl q)"
  by (simp add: dasCmd_def das_command_def percent_rest_plain)

lemma das_query_failed:
  assumes "percent template q = Inr cmd"
    and "run False cmd w = ((out, err, rc), w')"
    and "rc \<noteq> 0 \<or> out = []"
  shows "das_query run loads template q w
           = (Inl (complain cmd out err rc), w'\<lparr>issued := issued w @ [cmd]\<rparr>)"
  using assms by (auto simp: das_query_def execute_command_def)

lemma das_query_answered:
  assumes "percent template q = Inr cmd"
    and "run False cmd w = ((out, err, 0), w')"
    and "out \<noteq> []"
    and "loads out = Inr res"
    and "py_iter res = Inr recs"
  shows "das_query run loads template q w = (Inr recs, w'\<lparr>issued := issued w @ [cmd]\<rparr>)"
  using assms by (auto simp: das_query_def execute_command_def)

lemma das_query_issued:
  "das_query run loads template q w = (Inr recs, w') \<Longrightarrow> length (issued w') = Suc (length (issued w))"
  by (auto simp: das_query_def execute_command_def split: sum.splits prod.splits if_splits)

lemma valid_name_fields:
  "file_flag r = Inr v \<Longrightarrow> (truthy v \<Longrightarrow> file_name r = Inr n) \<Longrightarrow>
     valid_name r = Inr (if truthy v then Some n else None)"
  by (auto simp: valid_name_def file_flag_def file_name_def file_entry_def split: sum.splits)

lemma collect_valid_filter:
  "list_all2 (\<lambda>r f. file_flag r = Inr (fst f)
                           \<and> (truthy (fst f) \<longrightarrow> file_name r = Inr (snd f)))
       recs fs \<Longrightarrow>
     collect_valid recs acc = Inr (acc @ map snd (filter (\<lambda>f. truthy (fst f)) fs))"
proof (induction recs arbitrary: acc fs)
  case Nil
  then show ?case by simp
next
  case (Cons r recs)
  from Cons.prems obtain f fs' where fs: "fs = f # fs'"
    and r: "file_flag r = Inr (fst f)" "truthy (fst f) \<longrightarrow> file_name r = Inr (snd f)"
    and rest: "list_all2 (\<lambda>r f. file_flag r = Inr (fst f)
                           \<and> (truthy (fst f) \<longrightarrow> file_name r = Inr (snd f)))
       recs fs'"
    by (auto simp: list_all2_Cons1)
  have "valid_name r = Inr (if truthy (fst f) then Some (snd f) else None)"
    using r by (intro valid_name_fields) auto
  then show ?case
    using Cons.IH [OF rest] fs by simp
qed

lemma collect_valid_none:
  "\<forall>r \<in> set recs. \<exists>v. file_flag r = Inr v \<and> \<not> truthy v \<Longrightarrow> collect_valid recs acc = Inr acc"
proof (induction recs)
  case Nil
  then show ?case by simp
next
  case (Cons r recs)
  then obtain v where "file_flag r = Inr v" "\<not> truthy v" by auto
  then have "valid_name r = Inr None"
    using valid_name_fields [of r v undefined] by simp
  with Cons show ?case by simp
qed

lemma collect_pairs_all:
  "map run_lumi recs = map Inr ps \<Longrightarrow> collect_pairs recs acc = Inr (acc @ ps)"
proof (induction recs arbitrary: acc ps)
  case Nil
  then show ?case by simp
next
  case (Cons r recs)
  then obtain p ps' where "ps = p # ps'" "run_lumi r = Inr p" "map run_lumi recs = map Inr ps'"
    by (cases ps) auto
  with Cons.IH [of ps' "acc @ [p]"] show ?case by simp
qed

lemma lumi_loop_answers:
  "answers run loads template (map (lumi_query str_of) vs) w = (Inr rss, w') \<Longrightarrow>
   list_all2 (\<lambda>recs ps. map run_lumi recs = map Inr ps) rss pss \<Longrightarrow>
     lumi_loop run loads str_of template vs acc w = (Inr (acc @ concat pss), w')"
proof (induction vs arbitrary: acc w rss pss)
  case Nil
  then show ?case by simp
next
  case (Cons v vs)
  from Cons.prems(1) obtain recs w1 rss' where
    q: "das_query run loads template (lumi_query str_of v) w = (Inr recs, w1)"
    and rest: "answers run loads template (map (lumi_query str_of) vs) w1 = (Inr rss', w')"
    and rss: "rss = recs # rss'"
    by (auto split: prod.splits sum.splits)
  from Cons.prems(2) rss obtain ps pss' where
    pss: "pss = ps # pss'" and ps: "map run_lumi recs = map Inr ps"
    and rest2: "list_all2 (\<lambda>recs ps. map run_lumi recs = map Inr ps) rss' pss'"
    by (auto simp: list_all2_Cons1)
  have "collect_pairs recs acc = Inr (acc @ ps)"
    by (rule collect_pairs_all [OF ps])
  with q Cons.IH [OF rest rest2, of "acc @ ps"] pss show ?case
    by (simp add: lumi_query_def)
qed

lemma answers_issued:
  "answers run loads template qs w = (Inr rss, w') \<Longrightarrow>
     length (issued w') = length (issued w) + length qs"
proof (induction qs arbitrary: w rss)
  case Nil
  then show ?case by simp
next
  case (Cons q qs)
  from Cons.prems obtain recs w1 rss' where
    q: "das_query run loads template q w = (Inr recs, w1)"
    and rest: "answers run loads template qs w1 = (Inr rss', w')"
    by (auto split: prod.splits sum.splits)
  from das_query_issued [OF q] Cons.IH [OF rest] show ?case by simp
qed

lemma lumi_loop_append:
  "lumi_loop run loads str_of template (pre @ rest) acc w =
     (case lumi_loop run loads str_of template pre acc w of
        (Inl e, w1) \<Rightarrow> (Inl e, w1)
      | (Inr acc1, w1) \<Rightarrow> lumi_loop run loads str_of template rest acc1 w1)"
  by (induction pre arbitrary: acc w) (auto split: prod.splits sum.splits)

lemma indent_append: "indent pad (xs @ ys) = indent pad xs @ indent pad ys"
  by (simp add: indent_def)

lemma indent_plain: "CHR 0x0A \<notin> set l \<Longrightarrow> indent pad l = l"
  by (induction l) (auto simp: indent_def)

lemma indent_keeps_line:
  assumes "sublist l s" and "CHR 0x0A \<notin> set l"
  shows "sublist l (indent pad s)"
proof -
  from assms(1) obtain ps ss where "s = ps @ l @ ss" by (auto simp: sublist_def)
  then have "indent pad s = indent pad ps @ l @ indent pad ss"
    using assms(2) by (simp add: indent_append indent_plain)
  then show ?thesis by simp
qed

lemma complain_message:
  "\<exists>msg. complain cmd out err rc = ClientException msg
         \<and> sublist cmd msg \<and> sublist (indent ''    '' out) msg \<and> sublist (indent ''    '' err) msg"
proof -
  let ?m0 = "''Failed executing '' @ cmd @ ''. Exitcode is '' @ str_int rc"
  let ?m1 = "if out \<noteq> [] then ?m0 @ ''\<newline>  Stdout:\<newline>    '' @ indent ''    '' out else ?m0"
  let ?m2 = "if err \<noteq> [] then ?m1 @ ''\<newline>  Stderr:\<newline>    '' @ indent ''    '' err else ?m1"
  have eq: "complain cmd out err rc = ClientException ?m2"
    by (simp add: complain_def Let_def)
  have c0: "sublist cmd ?m0" by (rule sublist_appendI)
  have c1: "sublist ?m0 ?m1" by simp
  have c2: "sublist ?m1 ?m2" by simp
  have o1: "sublist (indent ''    '' out) ?m1"
  proof (cases "out = []")
    case True
    then show ?thesis by (simp add: indent_def)
  next
    case False
    have "sublist (indent ''    '' out)
            ((?m0 @ ''\<newline>  Stdout:\<newline>    '') @ indent ''    '' out)"
      by (rule sublist_append_leftI)
    with False show ?thesis by simp
  qed
  have e2: "sublist (indent ''    '' err) ?m2"
  proof (cases "err = []")
    case True
    then show ?thesis by (simp add: indent_def)
  next
    case False
    have "sublist (indent ''    '' err)
            ((?m1 @ ''\<newline>  Stderr:\<newline>    '') @ indent ''    '' err)"
      by (rule sublist_append_leftI)
    with False show ?thesis by simp
  qed
  from c0 c1 c2 have "sublist cmd ?m2"
    by (blast intro: sublist_order.order.trans)
  moreover from o1 c2 have "sublist (indent ''    '' out) ?m2"
    by (blast intro: sublist_order.order.trans)
  ultimately show ?thesis using eq e2 by blast
qed

text \<open>
  C3. Let \<open>q\<close> be a query \<open>getLumiListInValidFiles\<close> reaches (the file query in the
  world \<open>w\<close> of the call, or the lumi query of a valid file \<open>f\<close> once the files \<open>pre\<close>
  before it are processed), let \<open>cmd\<close> be its command, and let the command exit nonzero
  or print nothing. Then the function raises \<open>ClientException\<close>. Its message contains
  the command text, and the output and the error stream with four spaces added after
  each of their line breaks, so that every line of either stream stands in the message
  as it is. No interval list is returned, and the failing command is the last command
  issued, once: the world is the one that command left.
\<close>

theorem failed_query_aborts:
  assumes reach:
      "(q = file_query dataset \<and> wq = w)
       \<or> (valid_files run loads (dasCmd dbsurl) dataset w = (Inr (pre @ f # post), w1)
          \<and> lumi_loop run loads str_of (dasCmd dbsurl) pre [] w1 = (Inr acc, wq)
          \<and> q = lumi_query str_of f)"
    and cmd: "percent (dasCmd dbsurl) q = Inr cmd"
    and run: "run False cmd wq = ((out, err, rc), wr)"
    and failed: "rc \<noteq> 0 \<or> out = []"
  shows "\<exists>msg. getLumiListInValidFiles run loads str_of dataset dbsurl w
                 = (Inl (ClientException msg), wr\<lparr>issued := issued wq @ [cmd]\<rparr>)
           \<and> sublist cmd msg
           \<and> sublist (indent ''    '' out) msg
           \<and> sublist (indent ''    '' err) msg
           \<and> (\<forall>l. CHR 0x0A \<notin> set l \<and> (sublist l out \<or> sublist l err) \<longrightarrow> sublist l msg)"
proof -
  from complain_message [of cmd out err rc] obtain msg where
    msg: "complain cmd out err rc = ClientException msg" "sublist cmd msg"
         "sublist (indent ''    '' out) msg" "sublist (indent ''    '' err) msg"
    by blast
  have q: "das_query run loads (dasCmd dbsurl) q wq
             = (Inl (ClientException msg), wr\<lparr>issued := issued wq @ [cmd]\<rparr>)"
    using das_query_failed [where run = run and loads = loads, OF cmd run failed] msg(1) by simp
  have res: "getLumiListInValidFiles run loads str_of dataset dbsurl w
               = (Inl (ClientException msg), wr\<lparr>issued := issued wq @ [cmd]\<rparr>)"
    using reach
  proof
    assume "q = file_query dataset \<and> wq = w"
    with q show ?thesis
      by (simp add: getLumiListInValidFiles_def valid_files_def file_query_def)
  next
    assume lumi: "valid_files run loads (dasCmd dbsurl) dataset w = (Inr (pre @ f # post), w1)
          \<and> lumi_loop run loads str_of (dasCmd dbsurl) pre [] w1 = (Inr acc, wq)
          \<and> q = lumi_query str_of f"
    with q have "lumi_loop run loads str_of (dasCmd dbsurl) (f # post) acc wq
                   = (Inl (ClientException msg), wr\<lparr>issued := issued wq @ [cmd]\<rparr>)"
      by (simp add: lumi_query_def)
    with lumi have "lumi_loop run loads str_of (dasCmd dbsurl) (pre @ f # post) [] w1
                   = (Inl (ClientException msg), wr\<lparr>issued := issued wq @ [cmd]\<rparr>)"
      by (simp add: lumi_loop_append)
    with lumi show ?thesis
      by (simp add: getLumiListInValidFiles_def)
  qed
  have lines: "\<forall>l. CHR 0x0A \<notin> set l \<and> (sublist l out \<or> sublist l err) \<longrightarrow> sublist l msg"
  proof (intro allI impI)
    fix l assume l: "CHR 0x0A \<notin> set l \<and> (sublist l out \<or> sublist l err)"
    then have "sublist l (indent ''    '' out) \<or> sublist l (indent ''    '' err)"
      by (auto intro: indent_keeps_line)
    with msg(3,4) show "sublist l msg"
      by (blast intro: sublist_order.order.trans)
  qed
  from res msg(2,3,4) lines show ?thesis by blast
qed

text \<open>
  C1. Let the file query of the dataset be answered with the records \<open>recs\<close>, whose
  validity flags and (for a true flag) names are the pairs \<open>fs\<close>, and let the lumi queries of the files
  whose flag is true, issued one after the other in the order of \<open>fs\<close>, be answered with
  record lists that read as the lists of (run, lumi) pairs \<open>pss\<close>. Then
  \<open>getLumiListInValidFiles\<close> returns the interval list built from \<open>concat pss\<close>: the
  pairs of the valid files, file after file and in the order of each answer, nothing
  removed and nothing reordered. One lumi query is issued for each valid file and none
  for a file whose flag is false.
\<close>

theorem valid_files_only:
  assumes files: "das_query run loads (dasCmd dbsurl) (file_query dataset) w = (Inr recs, w1)"
    and fields: "list_all2 (\<lambda>r f. file_flag r = Inr (fst f)
                           \<and> (truthy (fst f) \<longrightarrow> file_name r = Inr (snd f)))
       recs fs"
    and lumis: "answers run loads (dasCmd dbsurl)
                  (map (\<lambda>f. lumi_query str_of (snd f)) (filter (\<lambda>f. truthy (fst f)) fs)) w1
                = (Inr rss, w2)"
    and pairs: "list_all2 (\<lambda>recs ps. map run_lumi recs = map Inr ps) rss pss"
  shows "getLumiListInValidFiles run loads str_of dataset dbsurl w
           = (Inr (LumiList (concat pss)), w2)
         \<and> length (issued w2) = length (issued w) + 1 + length (filter (\<lambda>f. truthy (fst f)) fs)"
proof -
  let ?vs = "map snd (filter (\<lambda>f. truthy (fst f)) fs)"
  have "collect_valid recs [] = Inr ?vs"
    using collect_valid_filter [OF fields, of "[]"] by simp
  with files have vf: "valid_files run loads (dasCmd dbsurl) dataset w = (Inr ?vs, w1)"
    by (simp add: valid_files_def file_query_def)
  from lumis have a: "answers run loads (dasCmd dbsurl) (map (lumi_query str_of) ?vs) w1 = (Inr rss, w2)"
    by (simp add: comp_def)
  have "lumi_loop run loads str_of (dasCmd dbsurl) ?vs [] w1 = (Inr (concat pss), w2)"
    using lumi_loop_answers [OF a pairs, of "[]"] by simp
  with vf have "getLumiListInValidFiles run loads str_of dataset dbsurl w
           = (Inr (LumiList (concat pss)), w2)"
    by (simp add: getLumiListInValidFiles_def)
  moreover have "length (issued w2) = length (issued w) + 1 + length (filter (\<lambda>f. truthy (fst f)) fs)"
    using das_query_issued [OF files] answers_issued [OF a] by simp
  ultimately show ?thesis by blast
qed

text \<open>
  C2. When the file query succeeds and every record it yields carries a false validity
  flag (in particular when it yields no record at all), \<open>getLumiListInValidFiles\<close>
  returns the interval list of no pairs and raises nothing; no further command is
  issued, the world is the one the file query left.
\<close>

theorem no_valid_files_empty:
  assumes files: "das_query run loads (dasCmd dbsurl) (file_query dataset) w = (Inr recs, w1)"
    and none: "\<forall>r \<in> set recs. \<exists>v. file_flag r = Inr v \<and> \<not> truthy v"
  shows "getLumiListInValidFiles run loads str_of dataset dbsurl w = (Inr (LumiList []), w1)"
  using files collect_valid_none [OF none, of "[]"]
  by (simp add: getLumiListInValidFiles_def valid_files_def file_query_def)

lemma subscript_key_error: "subscript_key v k = Inl e \<Longrightarrow> subscript_error e"
  by (cases v) (auto simp: subscript_error_def split: option.splits)

lemma subscript_0_error: "subscript_0 v = Inl e \<Longrightarrow> subscript_error e"
  by (cases v) (auto simp: subscript_error_def split: list.splits)

lemma valid_name_error: "valid_name r = Inl e \<Longrightarrow> subscript_error e"
  by (auto simp: valid_name_def split: sum.splits if_splits
        dest: subscript_key_error subscript_0_error)

lemma run_lumi_error: "run_lumi r = Inl e \<Longrightarrow> subscript_error e"
  by (auto simp: run_lumi_def split: sum.splits dest: subscript_key_error subscript_0_error)

lemma valid_name_shape: "valid_name r = Inr x \<Longrightarrow> file_shape r"
  by (auto simp: valid_name_def file_shape_def file_flag_def file_name_def file_entry_def
        present_def split: sum.splits if_splits)

lemma run_lumi_shape: "run_lumi r = Inr p \<Longrightarrow> lumi_shape r"
  by (auto simp: run_lumi_def lumi_shape_def lumi_entry_def present_def split: sum.splits)

lemma collect_valid_malformed:
  "r \<in> set recs \<Longrightarrow> \<not> file_shape r \<Longrightarrow> \<exists>e. collect_valid recs acc = Inl e \<and> subscript_error e"
proof (induction recs arbitrary: acc)
  case Nil
  then show ?case by simp
next
  case (Cons a recs)
  show ?case
  proof (cases "valid_name a")
    case (Inl e)
    then show ?thesis by (auto dest: valid_name_error)
  next
    case (Inr x)
    then have "file_shape a" by (rule valid_name_shape)
    with Cons.prems have "r \<in> set recs" by auto
    from Cons.IH [OF this Cons.prems(2)] Inr show ?thesis
      by (cases x) auto
  qed
qed

lemma collect_pairs_malformed:
  "r \<in> set recs \<Longrightarrow> \<not> lumi_shape r \<Longrightarrow> \<exists>e. collect_pairs recs acc = Inl e \<and> subscript_error e"
proof (induction recs arbitrary: acc)
  case Nil
  then show ?case by simp
next
  case (Cons a recs)
  show ?case
  proof (cases "run_lumi a")
    case (Inl e)
    then show ?thesis by (auto dest: run_lumi_error)
  next
    case (Inr p)
    then have "lumi_shape a" by (rule run_lumi_shape)
    with Cons.prems have "r \<in> set recs" by auto
    from Cons.IH [OF this Cons.prems(2)] Inr show ?thesis by auto
  qed
qed

text \<open>
  C10, amended. A file record has the shape the function needs when its first element
  under \<open>file\<close> carries \<open>is_file_valid\<close> and, if that flag is true, \<open>name\<close>; a lumi
  record when its first element under \<open>lumi\<close> carries \<open>run_number\<close> and
  \<open>lumi_section_num\<close>. When the answer to the file query, or the answer to a lumi query
  the function reaches, holds a record without that shape, the function fails in the
  world that query left with the error of a subscript (\<open>KeyError\<close>, \<open>IndexError\<close> or
  \<open>TypeError\<close>), which is not a \<open>ClientException\<close>.
\<close>

theorem malformed_record_raises:
  assumes reach:
      "(das_query run loads (dasCmd dbsurl) (file_query dataset) w = (Inr recs, w')
        \<and> (\<exists>r \<in> set recs. \<not> file_shape r))
       \<or> (valid_files run loads (dasCmd dbsurl) dataset w = (Inr (pre @ f # post), w1)
          \<and> lumi_loop run loads str_of (dasCmd dbsurl) pre [] w1 = (Inr acc, w2)
          \<and> das_query run loads (dasCmd dbsurl) (lumi_query str_of f) w2 = (Inr recs, w')
          \<and> (\<exists>r \<in> set recs. \<not> lumi_shape r))"
  shows "\<exists>e. getLumiListInValidFiles run loads str_of dataset dbsurl w = (Inl e, w')
           \<and> subscript_error e \<and> (\<forall>msg. e \<noteq> ClientException msg)"
proof -
  have "\<exists>e. getLumiListInValidFiles run loads str_of dataset dbsurl w = (Inl e, w')
           \<and> subscript_error e"
    using reach
  proof
    assume a: "das_query run loads (dasCmd dbsurl) (file_query dataset) w = (Inr recs, w')
        \<and> (\<exists>r \<in> set recs. \<not> file_shape r)"
    then obtain r where "r \<in> set recs" "\<not> file_shape r" by blast
    from collect_valid_malformed [OF this, of "[]"] obtain e where
      "collect_valid recs [] = Inl e" "subscript_error e" by blast
    with a show ?thesis
      by (simp add: getLumiListInValidFiles_def valid_files_def file_query_def)
  next
    assume a: "valid_files run loads (dasCmd dbsurl) dataset w = (Inr (pre @ f # post), w1)
          \<and> lumi_loop run loads str_of (dasCmd dbsurl) pre [] w1 = (Inr acc, w2)
          \<and> das_query run loads (dasCmd dbsurl) (lumi_query str_of f) w2 = (Inr recs, w')
          \<and> (\<exists>r \<in> set recs. \<not> lumi_shape r)"
    then obtain r where "r \<in> set recs" "\<not> lumi_shape r" by blast
    from collect_pairs_malformed [OF this, of acc] obtain e where
      e: "collect_pairs recs acc = Inl e" "subscript_error e" by blast
    with a have "lumi_loop run loads str_of (dasCmd dbsurl) (f # post) acc w2 = (Inl e, w')"
      by (simp add: lumi_query_def)
    with a have "lumi_loop run loads str_of (dasCmd dbsurl) (pre @ f # post) [] w1 = (Inl e, w')"
      by (simp add: lumi_loop_append)
    with a e(2) show ?thesis
      by (simp add: getLumiListInValidFiles_def)
  qed
  then show ?thesis by (auto simp: subscript_error_def)
qed

lemmas service_simps =
  das_query_def percent_dasCmd execute_command_def service_run_def service_def
  das_command_def file_query_def lumi_query_def py_str_def service_loads_def world0_def

lemma service_files_C:
  "das_query service_run service_loads (dasCmd ''phys03'') (file_query ''/A/B/C'') world0
   = (Inr [file_record [(''is_file_valid'', JInt 1), (''name'', JStr ''/store/valid.root'')],
           file_record [(''is_file_valid'', JInt 0), (''name'', JStr ''/store/invalid.root'')]],
      world0\<lparr>issued := [das_command ''phys03'' ''file dataset=/A/B/C'']\<rparr>)"
  by (simp add: service_simps)

lemma service_lumis_valid:
  "das_query service_run service_loads (dasCmd ''phys03'')
     (lumi_query service_str (JStr ''/store/valid.root''))
     (world0\<lparr>issued := [das_command ''phys03'' ''file dataset=/A/B/C'']\<rparr>)
   = (Inr [lumi_record 1 10, lumi_record 1 11],
      world0\<lparr>issued := [das_command ''phys03'' ''file dataset=/A/B/C'',
                         das_command ''phys03'' ''lumi file=/store/valid.root'']\<rparr>)"
  by (simp add: service_simps)

lemma service_files_D:
  "das_query service_run service_loads (dasCmd ''phys03'') (file_query ''/A/B/D'') world0
   = (Inr [file_record [(''is_file_valid'', JInt 1), (''name'', JStr ''/store/lost.root'')]],
      world0\<lparr>issued := [das_command ''phys03'' ''file dataset=/A/B/D'']\<rparr>)"
  by (simp add: service_simps)

lemma service_files_E:
  "das_query service_run service_loads (dasCmd ''phys03'') (file_query ''/A/B/E'') world0
   = (Inr [file_record [(''is_file_valid'', JInt 0)]],
      world0\<lparr>issued := [das_command ''phys03'' ''file dataset=/A/B/E'']\<rparr>)"
  by (simp add: service_simps)

lemma service_files_F:
  "das_query service_run service_loads (dasCmd ''phys03'') (file_query ''/A/B/F'') world0
   = (Inr [JDict [(''das'', JDict []), (''qhash'', JStr ''q''), (''file'', JList [])]],
      world0\<lparr>issued := [das_command ''phys03'' ''file dataset=/A/B/F'']\<rparr>)"
  by (simp add: service_simps)

lemmas record_simps =
  file_flag_def file_name_def file_entry_def file_record_def lumi_record_def run_lumi_def
  lumi_entry_def present_def

text \<open>
  The scenario of the specification: of the two files of \<open>/A/B/C\<close> only the valid one is
  queried, and its two pairs come back in the order of the answer.
\<close>

theorem valid_files_only_witness:
  "getLumiListInValidFiles service_run service_loads service_str ''/A/B/C'' ''phys03'' world0
   = (Inr (LumiList [(JInt 1, JInt 10), (JInt 1, JInt 11)]),
      world0\<lparr>issued := [das_command ''phys03'' ''file dataset=/A/B/C'',
                         das_command ''phys03'' ''lumi file=/store/valid.root'']\<rparr>)"
proof -
  let ?fs = "[(JInt 1, JStr ''/store/valid.root''), (JInt 0, JStr ''/store/invalid.root'')]"
  let ?recs = "[file_record [(''is_file_valid'', JInt 1), (''name'', JStr ''/store/valid.root'')],
           file_record [(''is_file_valid'', JInt 0), (''name'', JStr ''/store/invalid.root'')]]"
  let ?w1 = "world0\<lparr>issued := [das_command ''phys03'' ''file dataset=/A/B/C'']\<rparr>"
  let ?w2 = "world0\<lparr>issued := [das_command ''phys03'' ''file dataset=/A/B/C'',
                         das_command ''phys03'' ''lumi file=/store/valid.root'']\<rparr>"
  have fields: "list_all2 (\<lambda>r f. file_flag r = Inr (fst f)
                           \<and> (truthy (fst f) \<longrightarrow> file_name r = Inr (snd f)))
       ?recs ?fs"
    by (simp add: record_simps)
  have lumis: "answers service_run service_loads (dasCmd ''phys03'')
                 (map (\<lambda>f. lumi_query service_str (snd f)) (filter (\<lambda>f. truthy (fst f)) ?fs)) ?w1
               = (Inr [[lumi_record 1 10, lumi_record 1 11]], ?w2)"
    by (simp add: service_lumis_valid)
  have pairs: "list_all2 (\<lambda>recs ps. map run_lumi recs = map Inr ps)
                 [[lumi_record 1 10, lumi_record 1 11]] [[(JInt 1, JInt 10), (JInt 1, JInt 11)]]"
    by (simp add: record_simps)
  from valid_files_only [where run = service_run and loads = service_loads
      and str_of = service_str, OF service_files_C fields lumis pairs]
  show ?thesis by simp
qed

text \<open>
  The only file of \<open>/A/B/E\<close> is invalid: the interval list is empty and the file query
  is the only command issued.
\<close>

theorem no_valid_files_empty_witness:
  "getLumiListInValidFiles service_run service_loads service_str ''/A/B/E'' ''phys03'' world0
   = (Inr (LumiList []), world0\<lparr>issued := [das_command ''phys03'' ''file dataset=/A/B/E'']\<rparr>)"
proof -
  have none: "\<forall>r \<in> set [file_record [(''is_file_valid'', JInt 0)]].
                \<exists>v. file_flag r = Inr v \<and> \<not> truthy v"
    by (simp add: record_simps)
  from no_valid_files_empty [where run = service_run and loads = service_loads
      and str_of = service_str, OF service_files_E none]
  show ?thesis .
qed

text \<open>
  The lumi query of the valid file of \<open>/A/B/D\<close> exits with 1: the second command is the
  last one, and the message shows the command and the line of the error stream.
\<close>

theorem failed_query_aborts_witness:
  "\<exists>msg. getLumiListInValidFiles service_run service_loads service_str ''/A/B/D'' ''phys03'' world0
           = (Inl (ClientException msg),
              world0\<lparr>issued := [das_command ''phys03'' ''file dataset=/A/B/D'',
                                 das_command ''phys03'' ''lumi file=/store/lost.root'']\<rparr>)
         \<and> sublist (das_command ''phys03'' ''lumi file=/store/lost.root'') msg
         \<and> sublist ''dasgoclient: no records'' msg"
proof -
  let ?w1 = "world0\<lparr>issued := [das_command ''phys03'' ''file dataset=/A/B/D'']\<rparr>"
  let ?q = "lumi_query service_str (JStr ''/store/lost.root'')"
  let ?cmd = "das_command ''phys03'' ''lumi file=/store/lost.root''"
  have vf: "valid_files service_run service_loads (dasCmd ''phys03'') ''/A/B/D'' world0
              = (Inr ([] @ JStr ''/store/lost.root'' # []), ?w1)"
    using service_files_D by (simp add: valid_files_def file_query_def valid_name_def file_record_def)
  have reach: "(?q = file_query ''/A/B/D'' \<and> ?w1 = world0)
       \<or> (valid_files service_run service_loads (dasCmd ''phys03'') ''/A/B/D'' world0
             = (Inr ([] @ JStr ''/store/lost.root'' # []), ?w1)
          \<and> lumi_loop service_run service_loads service_str (dasCmd ''phys03'') [] [] ?w1
             = (Inr [], ?w1)
          \<and> ?q = lumi_query service_str (JStr ''/store/lost.root''))"
    using vf by simp
  have cmd: "percent (dasCmd ''phys03'') ?q = Inr ?cmd"
    by (simp add: percent_dasCmd lumi_query_def py_str_def)
  have run: "service_run False ?cmd ?w1 = (([], ''dasgoclient: no records'', 1), ?w1)"
    by (simp add: service_run_def service_def das_command_def)
  have failed: "(1::int) \<noteq> 0 \<or> ([]::string) = []" by simp
  from failed_query_aborts [where run = service_run and loads = service_loads
      and str_of = service_str, OF reach cmd run failed]
  obtain msg where
    m: "getLumiListInValidFiles service_run service_loads service_str ''/A/B/D'' ''phys03'' world0
          = (Inl (ClientException msg), ?w1\<lparr>issued := issued ?w1 @ [?cmd]\<rparr>)"
       "sublist ?cmd msg"
       "\<forall>l. CHR 0x0A \<notin> set l \<and> (sublist l [] \<or> sublist l ''dasgoclient: no records'')
            \<longrightarrow> sublist l msg"
    by blast
  from m(3) have "sublist ''dasgoclient: no records'' msg" by simp
  with m(1,2) show ?thesis by (auto simp: world0_def)
qed

text \<open>
  C10, as stated, at the answer for \<open>/A/B/E\<close>: the first element under \<open>file\<close> carries
  no \<open>name\<close>, so the record misses the shape of the claim, and the function raises
  nothing. The flag of the record is false, and the function reads the name of a valid
  file only.
\<close>

theorem nameless_invalid_file_counterexample:
  "\<not> file_shape_both (file_record [(''is_file_valid'', JInt 0)])
   \<and> das_query service_run service_loads (dasCmd ''phys03'') (file_query ''/A/B/E'') world0
       = (Inr [file_record [(''is_file_valid'', JInt 0)]],
          world0\<lparr>issued := [das_command ''phys03'' ''file dataset=/A/B/E'']\<rparr>)
   \<and> fst (getLumiListInValidFiles service_run service_loads service_str ''/A/B/E'' ''phys03'' world0)
       = Inr (LumiList [])"
  using service_files_E
  by (simp add: file_shape_both_def record_simps getLumiListInValidFiles_def valid_files_def
        valid_name_def file_query_def)

text \<open>
  The record of \<open>/A/B/F\<close> has no first element under \<open>file\<close>.
\<close>

theorem malformed_record_raises_witness:
  "\<not> file_shape (JDict [(''das'', JDict []), (''qhash'', JStr ''q''), (''file'', JList [])])
   \<and> (\<exists>e. getLumiListInValidFiles service_run service_loads service_str ''/A/B/F'' ''phys03'' world0
            = (Inl e, world0\<lparr>issued := [das_command ''phys03'' ''file dataset=/A/B/F'']\<rparr>)
          \<and> subscript_error e \<and> (\<forall>msg. e \<noteq> ClientException msg))"
proof -
  let ?r = "JDict [(''das'', JDict []), (''qhash'', JStr ''q''), (''file'', JList [])]"
  have bad: "\<not> file_shape ?r" by (simp add: file_shape_def record_simps)
  then have "(das_query service_run service_loads (dasCmd ''phys03'') (file_query ''/A/B/F'') world0
                = (Inr [?r], world0\<lparr>issued := [das_command ''phys03'' ''file dataset=/A/B/F'']\<rparr>)
              \<and> (\<exists>r \<in> set [?r]. \<not> file_shape r))
            \<or> (valid_files service_run service_loads (dasCmd ''phys03'') ''/A/B/F'' world0
                  = (Inr ([] @ JNull # []), world0)
               \<and> lumi_loop service_run service_loads service_str (dasCmd ''phys03'') [] [] world0
                  = (Inr [], world0)
               \<and> das_query service_run service_loads (dasCmd ''phys03'')
                    (lumi_query service_str JNull) world0
                  = (Inr [?r], world0\<lparr>issued := [das_command ''phys03'' ''file dataset=/A/B/F'']\<rparr>)
               \<and> (\<exists>r \<in> set [?r]. \<not> lumi_shape r))"
    using service_files_F by simp
  from malformed_record_raises [where run = service_run and loads = service_loads
      and str_of = service_str, OF this] bad
  show ?thesis by blast
qed

section \<open>Properties of curlGetFileFromURL\<close>

text \<open>
  What the function does when the download command exits nonzero: it depends on whether
  the destination file exists once the command is over.
\<close>

lemma curl_command_failed:
  assumes run: "run logger (downloadCommand (capath w) proxyfilename (Some path) url)
                  (if logger
                   then log_call DEBUG (''Will execute:\<newline>''
                          @ downloadCommand (capath w) proxyfilename (Some path) url) w
                   else w) = ((out, err, rc), w1)"
    and rc: "rc \<noteq> 0"
  shows "fst (curlGetFileFromURL run to_int decode url (Some path) proxyfilename logger w) =
           (case files w1 path of None \<Rightarrow> Inl OSError | Some _ \<Rightarrow> Inr 503)"
    and "files (snd (curlGetFileFromURL run to_int decode url (Some path) proxyfilename logger w))
           path = None"
  using run rc
  by (auto simp: curlGetFileFromURL_def execute_command_def os_unlink_def curl_return_def
        log_call_def Let_def capath_def split: option.splits)

text \<open>
  C4. The download command exits nonzero before any exchange (curl cannot resolve the
  host, exit code 6) and has written no destination file. \<open>os.unlink\<close> then raises:
  the function raises \<open>OSError\<close>, where the claim has it return the status 503.
\<close>

theorem curl_unreachable_host_raises:
  "fst (curlGetFileFromURL
          (\<lambda>logger cmd w. ((''000'', ''curl: (6) Could not resolve host: nowhere.invalid'', 6), w))
          to_int decode
          ''https://nowhere.invalid/status_cache'' (Some ''status_cache'') (Some ''/tmp/x509up_u1000'')
          False world0)
   = Inl OSError"
  by (simp add: curlGetFileFromURL_def execute_command_def os_unlink_def world0_def)

lemma str_int_0: "str_int 0 = ''0''"
  by code_simp

text \<open>
  What the function does when the download command exits with 0 and prints a status
  code, for a destination file that exists and whose content the interpreter decodes
  to \<open>body\<close>: a code other than 200 is returned, the destination file is gone, every
  other file is as the command left it, and the debug record, written out in full,
  ends with the body; the code 200 is returned with the file as the command left it.
\<close>

lemma curl_status_readable_file:
  assumes run: "run logger (downloadCommand (capath w) proxyfilename (Some path) url)
                  (if logger
                   then log_call DEBUG (''Will execute:\<newline>''
                          @ downloadCommand (capath w) proxyfilename (Some path) url) w
                   else w) = ((out, err, 0), w1)"
    and code: "to_int out = Inr code"
    and dest: "files w1 path = Some content"
    and dec: "decode content = Inr body"
  shows "\<exists>w'. curlGetFileFromURL run to_int decode url (Some path) proxyfilename logger w
                = (Inr code, w')
           \<and> files w' path = (if code = 200 then Some content else None)
           \<and> (\<forall>p. p \<noteq> path \<longrightarrow> files w' p = files w1 p)
           \<and> logged w' = logged w1 @
                (if logger
                 then [(DEBUG, ''exitcode: 0\<newline>stdout: '' @ out @ ''\<newline>stderr: '' @ err
                               @ ''\<newline>error details: '' @ (if code = 200 then [] else body))]
                 else [])"
  using run code dest dec
  by (simp add: curlGetFileFromURL_def execute_command_def os_unlink_def read_file_def
        curl_return_def details_msg_def str_int_0 log_call_def Let_def)

text \<open>
  The status 200 is returned whatever the destination is, and no file is touched.
\<close>

lemma curl_status_200:
  assumes run: "run logger (downloadCommand (capath w) proxyfilename filename url)
                  (if logger
                   then log_call DEBUG (''Will execute:\<newline>''
                          @ downloadCommand (capath w) proxyfilename filename url) w
                   else w) = ((out, err, 0), w1)"
    and code: "to_int out = Inr 200"
  shows "\<exists>w'. curlGetFileFromURL run to_int decode url filename proxyfilename logger w
                = (Inr 200, w')
           \<and> files w' = files w1"
  using run code
  by (simp add: curlGetFileFromURL_def execute_command_def curl_return_def log_call_def Let_def)

text \<open>
  With a status other than 200 the function raises instead of returning the status in
  three cases: the content of the destination file does not decode, there is no
  destination file, and no file name was passed (the default \<open>None\<close>, for which the
  docstring announces the file name of the URL). In the first and the last the file
  curl wrote stays where it is.
\<close>

lemma curl_status_undecodable:
  assumes run: "run logger (downloadCommand (capath w) proxyfilename (Some path) url)
                  (if logger
                   then log_call DEBUG (''Will execute:\<newline>''
                          @ downloadCommand (capath w) proxyfilename (Some path) url) w
                   else w) = ((out, err, 0), w1)"
    and code: "to_int out = Inr code" "code \<noteq> 200"
    and dest: "files w1 path = Some content"
    and dec: "decode content = Inl e"
  shows "fst (curlGetFileFromURL run to_int decode url (Some path) proxyfilename logger w) = Inl e"
    and "files (snd (curlGetFileFromURL run to_int decode url (Some path) proxyfilename logger w))
           path = Some content"
  using run code dest dec
  by (simp_all add: curlGetFileFromURL_def execute_command_def read_file_def Let_def)

lemma curl_status_no_file:
  assumes run: "run logger (downloadCommand (capath w) proxyfilename (Some path) url)
                  (if logger
                   then log_call DEBUG (''Will execute:\<newline>''
                          @ downloadCommand (capath w) proxyfilename (Some path) url) w
                   else w) = ((out, err, 0), w1)"
    and code: "to_int out = Inr code" "code \<noteq> 200"
    and dest: "files w1 path = None"
  shows "fst (curlGetFileFromURL run to_int decode url (Some path) proxyfilename logger w)
           = Inl OSError"
  using run code dest
  by (simp add: curlGetFileFromURL_def execute_command_def read_file_def Let_def)

lemma curl_status_default_filename:
  assumes run: "run logger (downloadCommand (capath w) proxyfilename None url)
                  (if logger
                   then log_call DEBUG (''Will execute:\<newline>''
                          @ downloadCommand (capath w) proxyfilename None url) w
                   else w) = ((out, err, 0), w1)"
    and code: "to_int out = Inr code" "code \<noteq> 200"
  shows "fst (curlGetFileFromURL run to_int decode url None proxyfilename logger w) = Inl TypeError"
    and "files (snd (curlGetFileFromURL run to_int decode url None proxyfilename logger w))
           = files w1"
  using run code
  by (simp_all add: curlGetFileFromURL_def execute_command_def read_file_def Let_def)

text \<open>
  C5. The download command exits with 0 and prints the status 404; the body the server
  sent with it, now in the destination file, is the two bytes FF FE, which are no text
  in UTF-8. For every \<open>int\<close> that reads \<open>404\<close> as 404 and every decoding that rejects
  those two bytes, reading the file for the diagnostics raises: the function raises
  \<open>UnicodeDecodeError\<close> and the destination file is still there, where the claim has it
  return 404 and delete the file.
\<close>

theorem curl_undecodable_body_raises:
  "fst (curlGetFileFromURL
          (\<lambda>logger cmd w.
              ((''404'', [], 0), w\<lparr>files := (files w)(''page.html'' \<mapsto> [CHR 0xFF, CHR 0xFE])\<rparr>))
          (to_int(''404'' := Inr 404))
          (decode([CHR 0xFF, CHR 0xFE] := Inl UnicodeDecodeError))
          ''https://cmsweb.cern.ch/page'' (Some ''page.html'') (Some ''/tmp/x509up_u1000'')
          False world0)
     = Inl UnicodeDecodeError
   \<and> files (snd (curlGetFileFromURL
          (\<lambda>logger cmd w.
              ((''404'', [], 0), w\<lparr>files := (files w)(''page.html'' \<mapsto> [CHR 0xFF, CHR 0xFE])\<rparr>))
          (to_int(''404'' := Inr 404))
          (decode([CHR 0xFF, CHR 0xFE] := Inl UnicodeDecodeError))
          ''https://cmsweb.cern.ch/page'' (Some ''page.html'') (Some ''/tmp/x509up_u1000'')
          False world0)) ''page.html''
     = Some [CHR 0xFF, CHR 0xFE]"
  by (simp add: curlGetFileFromURL_def execute_command_def read_file_def world0_def)

section \<open>Properties of getUsernameFromCRIC\<close>

text \<open>
  C7. Let \<open>proxy\<close> be the credential file the function settles on, \<open>(out, err, rc)\<close>
  the answer to the query command and \<open>username\<close> what the parse command prints. Then
  \<open>getUsernameFromCRIC\<close> raises \<open>UsernameException\<close> exactly when the credential file is
  not found, or the query command exits nonzero or prints nothing, or the parsed user
  name is empty or the string \<open>null\<close>; otherwise it returns the parsed user name.
\<close>

theorem getUsernameFromCRIC_raises_iff:
  assumes proxy: "(if falsy proxyFileName then getUserProxy w else (proxyFileName, w)) = (proxy, w1)"
    and query: "execute_command run False (queryCmd (capath w) (opt_str proxy)) w1
                  = ((out, err, rc), w2)"
    and parse: "execute_command run False (parseCmd out) w2 = ((username, err', rc'), w3)"
  shows "((\<exists>msg. fst (getUsernameFromCRIC run getUserProxy col proxyFileName w)
                   = Inl (UsernameException msg))
          \<longleftrightarrow> (falsy proxy \<or> rc \<noteq> 0 \<or> out = [] \<or> username = [] \<or> username = ''null''))
       \<and> (\<not> (falsy proxy \<or> rc \<noteq> 0 \<or> out = [] \<or> username = [] \<or> username = ''null'')
          \<longrightarrow> getUsernameFromCRIC run getUserProxy col proxyFileName w = (Inr username, w3))"
  using proxy query parse
  by (auto simp: getUsernameFromCRIC_def Let_def)

text \<open>
  A credential the identity service knows: the login comes back.
\<close>

theorem getUsernameFromCRIC_raises_iff_witness:
  "getUsernameFromCRIC cric_run (\<lambda>w. (None, w)) \<lparr>BOLD = ''*'', NORMAL = ''*''\<rparr>
     (Some ''/tmp/x509up_u1000'') world0
   = (Inr ''jdoe'',
      world0\<lparr>issued := [queryCmd ''/etc/grid-security/certificates'' ''/tmp/x509up_u1000'',
                         parseCmd ''{\"login\": \"jdoe\"}'']\<rparr>)"
  using getUsernameFromCRIC_raises_iff
    [where run = cric_run and getUserProxy = "\<lambda>w. (None, w)"
       and col = "\<lparr>BOLD = ''*'', NORMAL = ''*''\<rparr>"
       and proxyFileName = "Some ''/tmp/x509up_u1000''" and w = world0
       and proxy = "Some ''/tmp/x509up_u1000''" and ?w1.0 = world0
       and out = "''{\"login\": \"jdoe\"}''" and err = "[]" and rc = 0
       and ?w2.0 = "world0\<lparr>issued :=
                      [queryCmd ''/etc/grid-security/certificates'' ''/tmp/x509up_u1000'']\<rparr>"
       and username = "''jdoe''" and err' = "[]" and rc' = 0
       and ?w3.0 = "world0\<lparr>issued :=
                      [queryCmd ''/etc/grid-security/certificates'' ''/tmp/x509up_u1000'',
                       parseCmd ''{\"login\": \"jdoe\"}'']\<rparr>"]
  by (simp add: falsy_def opt_str_def capath_def world0_def execute_command_def cric_run_def
        queryCmd_def parseCmd_def)

section \<open>Properties of getMutedStatusInfo\<close>

text \<open>
  C8. Let building the status command and calling it both return normally, with a
  structure that has the field \<open>statusFailureMsg\<close>. Then the call ran at the mute
  level, the console level after \<open>getMutedStatusInfo\<close> is the level read before muting,
  the structure is returned as the collaborator gave it, and a non-empty failure
  message is logged at error level (and nothing is logged for an empty one).
\<close>

theorem getMutedStatusInfo_restores_level:
  assumes new: "status_new w = (Inr cmdobj, w1)"
    and call: "status_call cmdobj (setConsoleLogLevel mute w1) = (Inr statusDict, w3)"
    and field: "subscript_key statusDict ''statusFailureMsg'' = Inr m"
  shows "\<exists>w'. getMutedStatusInfo mute status_new status_call str_of w = (Inr statusDict, w')
           \<and> getConsoleLogLevel (setConsoleLogLevel mute w1) = mute
           \<and> getConsoleLogLevel w' = getConsoleLogLevel w1
           \<and> logged w' = logged w3 @
                (if truthy m
                 then [(ERROR, ''Error while getting status information. Got:\<newline>''
                               @ py_str str_of m @ '' '')]
                 else [])"
  using new call field
  by (auto simp: getMutedStatusInfo_def setConsoleLogLevel_def setConsoleLogLevelVar_def
        getConsoleLogLevel_def log_call_def Let_def split: option.splits)

text \<open>
  A status call that reports a failure message, from the console level 20.
\<close>

theorem getMutedStatusInfo_restores_level_witness:
  "\<exists>w'. getMutedStatusInfo 60 (\<lambda>w. (Inr (), w))
          (\<lambda>cmdobj w. (Inr (JDict [(''status'', JStr ''UNKNOWN''),
                                   (''statusFailureMsg'', JStr ''Cannot retrieve task status'')]), w))
          service_str world0
        = (Inr (JDict [(''status'', JStr ''UNKNOWN''),
                       (''statusFailureMsg'', JStr ''Cannot retrieve task status'')]), w')
      \<and> getConsoleLogLevel w' = 20
      \<and> logged w' = [(ERROR, ''Error while getting status information. Got:\<newline>Cannot retrieve task status '')]"
  using getMutedStatusInfo_restores_level
    [where mute = 60 and status_new = "\<lambda>w. (Inr (), w)"
       and status_call = "\<lambda>cmdobj w. (Inr (JDict [(''status'', JStr ''UNKNOWN''),
                                   (''statusFailureMsg'', JStr ''Cannot retrieve task status'')]), w)"
       and str_of = service_str and w = world0 and cmdobj = "()" and ?w1.0 = world0
       and statusDict = "JDict [(''status'', JStr ''UNKNOWN''),
                                (''statusFailureMsg'', JStr ''Cannot retrieve task status'')]"
       and ?w3.0 = "setConsoleLogLevel 60 world0"
       and m = "JStr ''Cannot retrieve task status''"]
  by (simp add: world0_def getConsoleLogLevel_def setConsoleLogLevel_def
        setConsoleLogLevelVar_def py_str_def)

text \<open>
  C9. Let the call of the status command raise. Then \<open>getMutedStatusInfo\<close> raises the
  same error in the world the collaborator left, without any restore step: when the
  collaborator has not touched the console level itself, the level is the mute level.
\<close>

theorem getMutedStatusInfo_raise_stays_muted:
  assumes new: "status_new w = (Inr cmdobj, w1)"
    and call: "status_call cmdobj (setConsoleLogLevel mute w1) = (Inl e, w3)"
    and kept: "getConsoleLogLevel w3 = getConsoleLogLevel (setConsoleLogLevel mute w1)"
  shows "getMutedStatusInfo mute status_new status_call str_of w = (Inl e, w3)
         \<and> getConsoleLogLevel w3 = mute"
  using new call kept
  by (auto simp: getMutedStatusInfo_def setConsoleLogLevel_def setConsoleLogLevelVar_def
        getConsoleLogLevel_def Let_def split: option.splits)

text \<open>
  A status call that raises, from the console level 20: the level is 60 afterwards.
\<close>

theorem getMutedStatusInfo_raise_stays_muted_witness:
  "getConsoleLogLevel world0 = 20
   \<and> getMutedStatusInfo 60 (\<lambda>w. (Inr (), w))
        (\<lambda>cmdobj w. (Inl (ClientException ''Cannot find .requestcache file''), w))
        service_str world0
      = (Inl (ClientException ''Cannot find .requestcache file''), setConsoleLogLevel 60 world0)
   \<and> getConsoleLogLevel (setConsoleLogLevel 60 world0) = 60"
  using getMutedStatusInfo_raise_stays_muted
    [where mute = 60 and status_new = "\<lambda>w. (Inr (), w)"
       and status_call = "\<lambda>cmdobj w. (Inl (ClientException ''Cannot find .requestcache file''), w)"
       and str_of = service_str and w = world0 and cmdobj = "()" and ?w1.0 = world0
       and e = "ClientException ''Cannot find .requestcache file''"
       and ?w3.0 = "setConsoleLogLevel 60 world0"]
  by (simp add: world0_def getConsoleLogLevel_def)

section \<open>Properties of getColumn\<close>

lemma list_index_absent: "x \<notin> set xs \<Longrightarrow> list_index xs x = Inl ValueError"
  by (induction xs) auto

lemma list_index_present:
  "x \<in> set xs \<Longrightarrow>
     \<exists>i. list_index xs x = Inr i \<and> i < length xs \<and> xs ! i = x \<and> (\<forall>j < i. xs ! j \<noteq> x)"
proof (induction xs)
  case Nil
  then show ?case by simp
next
  case (Cons y ys)
  show ?case
  proof (cases "y = x")
    case True
    then show ?thesis by simp
  next
    case False
    with Cons.prems have "x \<in> set ys" by simp
    from Cons.IH [OF this] obtain i where
      i: "list_index ys x = Inr i" "i < length ys" "ys ! i = x" "\<forall>j < i. ys ! j \<noteq> x"
      by blast
    have "\<forall>j < Suc i. (y # ys) ! j \<noteq> x"
    proof (intro allI impI)
      fix j assume "j < Suc i"
      then show "(y # ys) ! j \<noteq> x"
        using False i(4) by (cases j) auto
    qed
    with False i show ?thesis by simp
  qed
qed

text \<open>
  C6, as stated, at a row shorter than the header: the column \<open>a\<close> is among the
  columns, and \<open>getColumn\<close> returns no element but raises \<open>IndexError\<close>.
\<close>

theorem getColumn_short_result_counterexample:
  "''a'' \<in> set (desc_columns \<lparr>desc_columns = [''a''], result = []\<rparr>)
   \<and> getColumn \<lparr>desc_columns = [''a''], result = []\<rparr> ''a'' = Inl IndexError"
  by (simp add: getColumn_def subscript_nat_def)

text \<open>
  C6, amended. When the name is among the columns, \<open>i\<close> is its first position; if the
  result sequence has a position \<open>i\<close>, \<open>getColumn\<close> returns the element there, with the
  string \<open>None\<close> turned into the absent value \<open>JNull\<close>, and if the result sequence is
  too short it fails with \<open>IndexError\<close>. When the name is not among the columns the
  lookup of the name fails: \<open>getColumn\<close> raises the \<open>ValueError\<close> of \<open>list.index\<close>.
\<close>

theorem getColumn_first_position:
  "(name \<in> set (desc_columns d) \<longrightarrow>
      (\<exists>i < length (desc_columns d).
         desc_columns d ! i = name \<and> (\<forall>j < i. desc_columns d ! j \<noteq> name) \<and>
         getColumn d name =
           (if i < length (result d)
            then Inr (if result d ! i = JStr ''None'' then JNull else result d ! i)
            else Inl IndexError)))
   \<and> (name \<notin> set (desc_columns d) \<longrightarrow> getColumn d name = Inl ValueError)"
proof (intro conjI impI)
  assume "name \<in> set (desc_columns d)"
  from list_index_present [OF this] obtain i where
    i: "list_index (desc_columns d) name = Inr i" "i < length (desc_columns d)"
       "desc_columns d ! i = name" "\<forall>j < i. desc_columns d ! j \<noteq> name"
    by blast
  have "getColumn d name =
          (if i < length (result d)
           then Inr (if result d ! i = JStr ''None'' then JNull else result d ! i)
           else Inl IndexError)"
    using i(1) by (simp add: getColumn_def subscript_nat_def)
  with i show "\<exists>i < length (desc_columns d).
         desc_columns d ! i = name \<and> (\<forall>j < i. desc_columns d ! j \<noteq> name) \<and>
         getColumn d name =
           (if i < length (result d)
            then Inr (if result d ! i = JStr ''None'' then JNull else result d ! i)
            else Inl IndexError)"
    by blast
next
  assume "name \<notin> set (desc_columns d)"
  then show "getColumn d name = Inl ValueError"
    by (simp add: getColumn_def list_index_absent)
qed

theorem getColumn_first_position_witness:
  "''b'' \<in> set (desc_columns \<lparr>desc_columns = [''a'', ''b'', ''b''], result = [JInt 1, JStr ''None'', JInt 3]\<rparr>)
   \<and> getColumn \<lparr>desc_columns = [''a'', ''b'', ''b''], result = [JInt 1, JStr ''None'', JInt 3]\<rparr> ''b''
       = Inr JNull
   \<and> ''c'' \<notin> set (desc_columns \<lparr>desc_columns = [''a'', ''b'', ''b''], result = [JInt 1, JStr ''None'', JInt 3]\<rparr>)
   \<and> getColumn \<lparr>desc_columns = [''a'', ''b'', ''b''], result = [JInt 1, JStr ''None'', JInt 3]\<rparr> ''c''
       = Inl ValueError"
proof -
  let ?d = "\<lparr>desc_columns = [''a'', ''b'', ''b''], result = [JInt 1, JStr ''None'', JInt 3]\<rparr>"
  have b: "''b'' \<in> set (desc_columns ?d)" by simp
  have c: "''c'' \<notin> set (desc_columns ?d)" by simp
  from getColumn_first_position [of "''b''" ?d] b obtain i where
    i: "i < length (desc_columns ?d)" "desc_columns ?d ! i = ''b''"
       "\<forall>j < i. desc_columns ?d ! j \<noteq> ''b''"
       "getColumn ?d ''b'' =
          (if i < length (result ?d)
           then Inr (if result ?d ! i = JStr ''None'' then JNull else result ?d ! i)
           else Inl IndexError)"
    by blast
  have "i = 1"
  proof (rule ccontr)
    assume "i \<noteq> 1"
    with i(1) have "i = 0 \<or> i = 2" by (simp add: less_Suc_eq numeral_3_eq_3) arith
    then show False
    proof
      assume "i = 0" with i(2) show False by simp
    next
      assume i2: "i = 2"
      from i(3) have "1 < i \<longrightarrow> desc_columns ?d ! 1 \<noteq> ''b''" by blast
      with i2 show False by simp
    qed
  qed
  with i(4) have "getColumn ?d ''b'' = Inr JNull" by simp
  moreover from getColumn_first_position [of "''c''" ?d] c
  have "getColumn ?d ''c'' = Inl ValueError" by blast
  ultimately show ?thesis using b c by blast
qed

end
